theory Spec2Isabelle
  imports Main
begin

section \<open>Python values and exceptions\<close>

text \<open>
  The program is one Python module, \<^verbatim>\<open>app.py\<close>: two backend functions
  (\<^verbatim>\<open>send_pywhatkit_message\<close>, \<^verbatim>\<open>send_twilio_message\<close>) and the body of
  \<^verbatim>\<open>run_app\<close>, whose two form handlers call them.

  Python strings are modelled as \<open>string\<close>; the module only tests strings for
  emptiness, concatenates them and compares them with literals, so the byte view (UTF-8)
  and Python's code-point view agree on every operation used.

  \<open>py_exception\<close> models the instances of Python's \<^verbatim>\<open>Exception\<close> class that the
  module can meet: the provider library's \<^verbatim>\<open>TwilioRestException\<close> (with its
  \<^verbatim>\<open>msg\<close> attribute and its \<^verbatim>\<open>str\<close> text), the \<^verbatim>\<open>FileNotFoundError\<close> of a
  missing secrets file, the \<^verbatim>\<open>OverflowError\<close> of datetime arithmetic, the
  \<^verbatim>\<open>KeyError\<close> of a dictionary lookup, and any other exception, of which only the
  text \<^verbatim>\<open>str(e)\<close> is observed.
\<close>

datatype py_exception =
    TwilioRestException string string
  | FileNotFoundError string
  | OverflowError string
  | KeyError string
  | OtherException string

text \<open>\<^verbatim>\<open>str(e)\<close>. A \<^verbatim>\<open>KeyError\<close> prints the key in quotes.\<close>

fun py_str :: "py_exception \<Rightarrow> string" where
  "py_str (TwilioRestException m s) = s"
| "py_str (FileNotFoundError s) = s"
| "py_str (OverflowError s) = s"
| "py_str (KeyError k) = [CHR 0x27] @ k @ [CHR 0x27]"
| "py_str (OtherException s) = s"

text \<open>
  The values of the \<^verbatim>\<open>schedule_time\<close> dictionary: booleans and integers.
  \<^verbatim>\<open>if v:\<close> tests truthiness; \<^verbatim>\<open>bool\<close> is a subclass of \<^verbatim>\<open>int\<close>, so
  \<^verbatim>\<open>timedelta(minutes=True)\<close> is one minute.
\<close>

datatype py_value = PyBool bool | PyInt int

fun truthy :: "py_value \<Rightarrow> bool" where
  "truthy (PyBool b) = b"
| "truthy (PyInt n) = (n \<noteq> 0)"

fun as_int :: "py_value \<Rightarrow> int" where
  "as_int (PyBool b) = (if b then 1 else 0)"
| "as_int (PyInt n) = n"

section \<open>The standard library's datetime and timedelta\<close>

text \<open>
  A \<^verbatim>\<open>datetime\<close> is kept as Python's addition sees it: the proleptic Gregorian ordinal
  of its date (\<^verbatim>\<open>toordinal()\<close>, day 1 is 0001-01-01, day 3652059 is 9999-12-31) and
  the time of day. A \<^verbatim>\<open>timedelta\<close> is normalised to days, seconds in \<open>[0, 86400)\<close>
  and microseconds in \<open>[0, 1000000)\<close>.
\<close>

record datetime =
  toordinal :: int
  hour :: int
  minute :: int
  second :: int
  microsecond :: int

record timedelta =
  days :: int
  seconds :: int
  microseconds :: int

definition MAXORDINAL :: int where
  "MAXORDINAL = 3652059"

definition valid_datetime :: "datetime \<Rightarrow> bool" where
  "valid_datetime dt =
     (1 \<le> toordinal dt \<and> toordinal dt \<le> MAXORDINAL \<and>
      0 \<le> hour dt \<and> hour dt < 24 \<and>
      0 \<le> minute dt \<and> minute dt < 60 \<and>
      0 \<le> second dt \<and> second dt < 60 \<and>
      0 \<le> microsecond dt \<and> microsecond dt < 1000000)"

text \<open>Decimal text of an integer, as \<^verbatim>\<open>%d\<close> prints it.\<close>

fun show_nat :: "nat \<Rightarrow> string" where
  "show_nat n =
     (if n < 10 then [''0123456789'' ! n]
      else show_nat (n div 10) @ [''0123456789'' ! (n mod 10)])"

definition show_int :: "int \<Rightarrow> string" where
  "show_int i = (if i < 0 then ''-'' @ show_nat (nat (- i)) else show_nat (nat i))"

text \<open>
  \<^verbatim>\<open>datetime.timedelta(minutes=n)\<close> for an integer \<open>n\<close>: floor division, as Python's
  \<^verbatim>\<open>divmod\<close>. CPython refuses a day count of magnitude above 999999999 with an
  \<^verbatim>\<open>OverflowError\<close>, whose text depends on whether the count fits a C int.
\<close>

definition timedelta_minutes :: "int \<Rightarrow> py_exception + timedelta" where
  "timedelta_minutes n =
     (let s = n * 60; d = s div 86400 in
      if d < - 2147483648 \<or> 2147483647 < d then
        Inl (OverflowError ''Python int too large to convert to C int'')
      else if d < - 999999999 \<or> 999999999 < d then
        Inl (OverflowError (''days='' @ show_int d @ ''; must have magnitude <= 999999999''))
      else Inr \<lparr>days = d, seconds = s mod 86400, microseconds = 0\<rparr>)"

text \<open>
  \<^verbatim>\<open>dt + td\<close>: the carries run from microseconds to seconds to days; a result
  outside 0001-01-01 .. 9999-12-31 raises \<^verbatim>\<open>OverflowError\<close>.
\<close>

definition datetime_add :: "datetime \<Rightarrow> timedelta \<Rightarrow> py_exception + datetime" where
  "datetime_add dt td =
     (let us = microsecond dt + microseconds td;
          s = hour dt * 3600 + minute dt * 60 + second dt + seconds td + us div 1000000;
          d = toordinal dt + days td + s div 86400;
          r = s mod 86400
      in if 0 < d \<and> d \<le> MAXORDINAL then
           Inr \<lparr>toordinal = d, hour = r div 3600, minute = (r mod 3600) div 60,
                second = r mod 60, microsecond = us mod 1000000\<rparr>
         else Inl (OverflowError ''date value out of range''))"

text \<open>The position of a datetime on the time line, in microseconds.\<close>

definition total_microseconds :: "datetime \<Rightarrow> int" where
  "total_microseconds dt =
     (((toordinal dt * 24 + hour dt) * 60 + minute dt) * 60 + second dt) * 1000000
       + microsecond dt"

section \<open>The browser channel: \<^verbatim>\<open>send_pywhatkit_message\<close>\<close>

text \<open>
  The automation driver (\<^verbatim>\<open>pywhatkit\<close>) is a collaborator: each call either returns
  (\<open>None\<close>) or raises (\<open>Some e\<close>). The calls made are recorded in order, so that a
  theorem can say which calls a dispatch makes and with which arguments.
  \<open>Sendwhatmsg_instantly phone_no message wait_time tab_close\<close> and
  \<open>Sendwhatmsg phone_no message time_hour time_min\<close> carry the keyword arguments.
\<close>

datatype kit_call =
    Sendwhatmsg_instantly string string int bool
  | Sendwhatmsg string string int int

record browser_env =
  clock :: datetime
  kit :: "kit_call \<Rightarrow> py_exception option"

definition call_kit :: "browser_env \<Rightarrow> kit_call \<Rightarrow> kit_call list \<times> (py_exception + unit)" where
  "call_kit env c = ([c], case kit env c of None \<Rightarrow> Inr () | Some e \<Rightarrow> Inl e)"

text \<open>
  \<^verbatim>\<open>schedule_time\<close> is a dictionary; a lookup of a key it lacks raises
  \<^verbatim>\<open>KeyError\<close>. The clock is read inside the function, in the scheduled branch only.
\<close>

definition send_pywhatkit_message ::
  "browser_env \<Rightarrow> string \<Rightarrow> string \<Rightarrow> (string \<rightharpoonup> py_value)
     \<Rightarrow> kit_call list \<times> (py_exception + unit)" where
  "send_pywhatkit_message env phone_no message schedule_time =
     (case schedule_time ''instant'' of
        None \<Rightarrow> ([], Inl (KeyError ''instant''))
      | Some i \<Rightarrow>
          if truthy i then
            call_kit env (Sendwhatmsg_instantly phone_no message 15 True)
          else
            (let now = clock env in
             case schedule_time ''delay'' of
               None \<Rightarrow> ([], Inl (KeyError ''delay''))
             | Some d \<Rightarrow>
                 (case timedelta_minutes (as_int d) of
                    Inl e \<Rightarrow> ([], Inl e)
                  | Inr td \<Rightarrow>
                      (case datetime_add now td of
                         Inl e \<Rightarrow> ([], Inl e)
                       | Inr send_time \<Rightarrow>
                           call_kit env
                             (Sendwhatmsg phone_no message (hour send_time) (minute send_time))))))"

section \<open>The provider channel: \<^verbatim>\<open>send_twilio_message\<close>\<close>

text \<open>
  The provider library is a collaborator too. Constructing the client
  (\<^verbatim>\<open>Client(sid, token)\<close>) may raise; \<^verbatim>\<open>client.messages.create\<close>, on a client made
  from \<open>sid\<close> and \<open>token\<close>, is given \<open>body\<close>, \<open>from_\<close> and \<open>to\<close> and either raises or
  returns a message whose \<^verbatim>\<open>sid\<close> is a string. \<open>Messages_create body from_ to\<close> records
  the keyword arguments of the call.
\<close>

datatype twilio_call =
    Client string string
  | Messages_create string string string

record twilio_env =
  client_init :: "string \<Rightarrow> string \<Rightarrow> py_exception option"
  messages_create ::
    "string \<Rightarrow> string \<Rightarrow> string \<Rightarrow> string \<Rightarrow> string \<Rightarrow> py_exception + string"

text \<open>The body of the \<^verbatim>\<open>try\<close> block.\<close>

definition send_twilio_message_try ::
  "twilio_env \<Rightarrow> string \<Rightarrow> string \<Rightarrow> string \<Rightarrow> string \<Rightarrow> string
     \<Rightarrow> twilio_call list \<times> (py_exception + bool \<times> string)" where
  "send_twilio_message_try env sid token from_num to_num message =
     (case client_init env sid token of
        Some e \<Rightarrow> ([Client sid token], Inl e)
      | None \<Rightarrow>
          (let formatted_to_num = ''whatsapp:'' @ to_num in
           case messages_create env sid token message from_num formatted_to_num of
             Inl e \<Rightarrow> ([Client sid token, Messages_create message from_num formatted_to_num], Inl e)
           | Inr msg_sid \<Rightarrow>
               ([Client sid token, Messages_create message from_num formatted_to_num],
                Inr (True, ''Message sent successfully! SID: '' @ msg_sid))))"

text \<open>
  The two \<^verbatim>\<open>except\<close> clauses, in the order of the source:
  \<^verbatim>\<open>TwilioRestException\<close> first, then \<^verbatim>\<open>Exception\<close>.
\<close>

definition send_twilio_message ::
  "twilio_env \<Rightarrow> string \<Rightarrow> string \<Rightarrow> string \<Rightarrow> string \<Rightarrow> string
     \<Rightarrow> twilio_call list \<times> (py_exception + bool \<times> string)" where
  "send_twilio_message env sid token from_num to_num message =
     (case send_twilio_message_try env sid token from_num to_num message of
        (calls, Inr v) \<Rightarrow> (calls, Inr v)
      | (calls, Inl e) \<Rightarrow>
          (case e of
             TwilioRestException m s \<Rightarrow> (calls, Inr (False, ''Twilio Error: '' @ m))
           | _ \<Rightarrow> (calls, Inr (False, ''An unexpected error occurred: '' @ py_str e))))"

section \<open>The form handlers of \<^verbatim>\<open>run_app\<close>\<close>

text \<open>
  What the handlers show is recorded as the list of calls made to the user interface
  library. The three pictographs of the messages are given by their UTF-8 bytes:
  U+2705, U+274C, and U+26A0 followed by U+FE0F.
\<close>

datatype st_call =
    St_spinner string
  | St_success string
  | St_balloons
  | St_error string
  | St_warning string
  | St_info string

definition check_mark :: string where
  "check_mark = [CHR 0xE2, CHR 0x9C, CHR 0x85]"

definition cross_mark :: string where
  "cross_mark = [CHR 0xE2, CHR 0x9D, CHR 0x8C]"

definition warning_sign :: string where
  "warning_sign = [CHR 0xE2, CHR 0x9A, CHR 0xA0, CHR 0xEF, CHR 0xB8, CHR 0x8F]"

text \<open>
  The browser form. \<open>number_input\<close> is the value of the delay widget, which is only
  shown, and only read, when \<open>send_option\<close> is \<^verbatim>\<open>"Schedule for Later"\<close>. A handler
  returns the channel calls made, the user interface calls made, and the exception that
  leaves it, if any.
\<close>

definition whatsapp_web_form ::
  "browser_env \<Rightarrow> bool \<Rightarrow> string \<Rightarrow> string \<Rightarrow> string \<Rightarrow> int
     \<Rightarrow> kit_call list \<times> st_call list \<times> py_exception option" where
  "whatsapp_web_form env submit_button phone_number message send_option number_input =
     (let delay_minutes = (if send_option = ''Schedule for Later'' then number_input else 0) in
      if submit_button then
        (if phone_number \<noteq> [] \<and> message \<noteq> [] then
           (let schedule = [''instant'' \<mapsto> PyBool (send_option = ''Send Instantly''),
                            ''delay'' \<mapsto> PyInt delay_minutes] in
            case send_pywhatkit_message env phone_number message schedule of
              (calls, Inr u) \<Rightarrow>
                (calls,
                 [St_spinner ''Preparing to send message...'',
                  St_success (check_mark @ '' WhatsApp Web has been opened to send your message!''),
                  St_balloons],
                 None)
            | (calls, Inl e) \<Rightarrow>
                (calls,
                 [St_spinner ''Preparing to send message...'',
                  St_error (cross_mark @ '' Error: '' @ py_str e)],
                 None))
         else
           ([], [St_warning (warning_sign @ '' Please fill in both phone number and message.'')],
            None))
      else ([], [], None))"

text \<open>The provider form: \<^verbatim>\<open>all([...])\<close> holds when none of the five strings is empty.\<close>

definition twilio_form ::
  "twilio_env \<Rightarrow> bool \<Rightarrow> string \<Rightarrow> string \<Rightarrow> string \<Rightarrow> string \<Rightarrow> string
     \<Rightarrow> twilio_call list \<times> st_call list \<times> py_exception option" where
  "twilio_form env submit_api_button account_sid auth_token from_number to_number api_message =
     (if submit_api_button then
        (if list_all (\<lambda>s. s \<noteq> []) [account_sid, auth_token, from_number, to_number, api_message]
         then
           (case send_twilio_message env account_sid auth_token from_number to_number api_message of
              (calls, Inl e) \<Rightarrow> (calls, [St_spinner ''Sending message via Twilio...''], Some e)
            | (calls, Inr (success, response_message)) \<Rightarrow>
                (calls,
                 [St_spinner ''Sending message via Twilio...'',
                  if success then St_success (check_mark @ '' '' @ response_message)
                  else St_error (cross_mark @ '' '' @ response_message)],
                 None))
         else ([], [St_warning (warning_sign @ '' Please fill in all required fields.'')], None))
      else ([], [], None))"

subsection \<open>The default credentials\<close>

text \<open>
  The secrets store either raises on access (\<open>Inl\<close>: a missing file raises
  \<^verbatim>\<open>FileNotFoundError\<close>) or is a mapping from names to strings.
  \<^verbatim>\<open>st.secrets.get(key, default)\<close> gives the default for a name the mapping lacks.
\<close>

type_synonym secrets = "py_exception + (string \<rightharpoonup> string)"

definition secrets_get :: "secrets \<Rightarrow> string \<Rightarrow> string \<Rightarrow> py_exception + string" where
  "secrets_get store key dflt =
     (case store of
        Inl e \<Rightarrow> Inl e
      | Inr m \<Rightarrow> (case m key of None \<Rightarrow> Inr dflt | Some v \<Rightarrow> Inr v))"

text \<open>The handler of the \<^verbatim>\<open>try\<close>: only \<^verbatim>\<open>FileNotFoundError\<close> is caught.\<close>

definition secrets_except ::
  "py_exception \<Rightarrow> (py_exception + string \<times> string \<times> string) \<times> st_call list" where
  "secrets_except e =
     (case e of
        FileNotFoundError s \<Rightarrow>
          (Inr ('''', '''', ''''),
           [St_info ''Create a `.streamlit/secrets.toml` file to pre-fill your credentials.''])
      | _ \<Rightarrow> (Inl e, []))"

text \<open>The result is \<open>(default_sid, default_token, default_from_num)\<close>.\<close>

definition load_default_credentials ::
  "secrets \<Rightarrow> (py_exception + string \<times> string \<times> string) \<times> st_call list" where
  "load_default_credentials store =
     (case secrets_get store ''TWILIO_ACCOUNT_SID'' '''' of
        Inl e \<Rightarrow> secrets_except e
      | Inr default_sid \<Rightarrow>
          (case secrets_get store ''TWILIO_AUTH_TOKEN'' '''' of
             Inl e \<Rightarrow> secrets_except e
           | Inr default_token \<Rightarrow>
               (case secrets_get store ''TWILIO_WHATSAPP_NUMBER'' '''' of
                  Inl e \<Rightarrow> secrets_except e
                | Inr default_from_num \<Rightarrow>
                    (Inr (default_sid, default_token, default_from_num), []))))"

section \<open>Concrete collaborators and clock readings\<close>

text \<open>
  Collaborators with a fixed behaviour, and three readings of the clock, on which the
  functions above are evaluated: a driver that completes, a driver that raises, a
  provider that accepts every message under a given identifier, and a provider whose
  \<^verbatim>\<open>messages.create\<close> raises. Day 738886 is 2024-01-01.
\<close>

definition kit_completes :: "kit_call \<Rightarrow> py_exception option" where
  "kit_completes c = None"


definition noon :: datetime where
  "noon = \<lparr>toordinal = 738886, hour = 12, minute = 0, second = 0, microsecond = 0\<rparr>"

definition late_evening :: datetime where
  "late_evening = \<lparr>toordinal = 738886, hour = 23, minute = 58, second = 0, microsecond = 0\<rparr>"

definition last_evening :: datetime where
  "last_evening = \<lparr>toordinal = 3652059, hour = 23, minute = 58, second = 0, microsecond = 0\<rparr>"

definition provider_succeeds :: "string \<Rightarrow> twilio_env" where
  "provider_succeeds msg_sid =
     \<lparr>client_init = (\<lambda>sid token. None),
      messages_create = (\<lambda>sid token body from_num to_num. Inr msg_sid)\<rparr>"

definition provider_raises :: "py_exception \<Rightarrow> twilio_env" where
  "provider_raises e =
     \<lparr>client_init = (\<lambda>sid token. None),
      messages_create = (\<lambda>sid token body from_num to_num. Inl e)\<rparr>"

section \<open>Validation before dispatch\<close>

text \<open>
  C1. A send request (the form was submitted) with an empty recipient number or an empty
  message body, and on the provider form with any of its five fields empty, is answered
  with the validation warning alone: the list of channel calls is empty, so neither the
  automation driver nor the provider, not even the construction of its client, is
  invoked, and nothing is raised.
\<close>

theorem validation_short_circuit:
  "(phone_number = [] \<or> message = [] \<longrightarrow>
      whatsapp_web_form benv True phone_number message send_option number_input =
        ([], [St_warning (warning_sign @ '' Please fill in both phone number and message.'')], None))
   \<and> (account_sid = [] \<or> auth_token = [] \<or> from_number = [] \<or> to_number = [] \<or> api_message = [] \<longrightarrow>
      twilio_form tenv True account_sid auth_token from_number to_number api_message =
        ([], [St_warning (warning_sign @ '' Please fill in all required fields.'')], None))"
  by (auto simp: whatsapp_web_form_def twilio_form_def Let_def)

theorem validation_short_circuit_witness:
  "whatsapp_web_form \<lparr>clock = noon, kit = kit_completes\<rparr> True '''' ''hello'' ''Send Instantly'' 0 =
     ([], [St_warning (warning_sign @ '' Please fill in both phone number and message.'')], None)
   \<and> twilio_form (provider_succeeds ''SM1'') True ''AC1'' '''' ''whatsapp:+14155238886'' ''+15551234567'' ''hello'' =
     ([], [St_warning (warning_sign @ '' Please fill in all required fields.'')], None)"
  using validation_short_circuit [of "''''" "''hello''" "\<lparr>clock = noon, kit = kit_completes\<rparr>"
      "''Send Instantly''" 0 "''AC1''" "''''" "''whatsapp:+14155238886''" "''+15551234567''" "''hello''"
      "provider_succeeds ''SM1''"]
  by simp

section \<open>The provider channel\<close>

text \<open>
  C3. For every recipient number, the provider is called with the recipient address
  \<^verbatim>\<open>"whatsapp:"\<close> followed by the raw number, and with the sender address as it was
  given. The call is made whenever the client could be constructed; otherwise the
  constructor is the only call.
\<close>

theorem recipient_address_prefixed:
  "fst (send_twilio_message env sid token from_num to_num message) =
     (if client_init env sid token = None
      then [Client sid token, Messages_create message from_num (''whatsapp:'' @ to_num)]
      else [Client sid token])"
  by (auto simp: send_twilio_message_def send_twilio_message_try_def Let_def
      split: option.splits sum.splits py_exception.splits)

theorem recipient_address_prefixed_witness:
  "fst (send_twilio_message (provider_succeeds ''SM1'')
          ''AC1'' ''secret'' ''whatsapp:+14155238886'' ''+15551234567'' ''hello'')
     = [Client ''AC1'' ''secret'',
        Messages_create ''hello'' ''whatsapp:+14155238886'' ''whatsapp:+15551234567'']"
  using recipient_address_prefixed [of "provider_succeeds ''SM1''" "''AC1''" "''secret''"
      "''whatsapp:+14155238886''" "''+15551234567''" "''hello''"]
  by (simp add: provider_succeeds_def)

text \<open>
  C4, as the code has it. When the provider raises a \<^verbatim>\<open>TwilioRestException\<close>, the
  function returns the failure flag and the text \<^verbatim>\<open>"Twilio Error: "\<close> followed by the
  provider's message: the message is kept verbatim, after a fixed prefix.
\<close>

theorem provider_message_prefixed:
  assumes "client_init env sid token = Some (TwilioRestException m s) \<or>
     (client_init env sid token = None \<and>
      messages_create env sid token message from_num (''whatsapp:'' @ to_num)
        = Inl (TwilioRestException m s))"
  shows "snd (send_twilio_message env sid token from_num to_num message)
           = Inr (False, ''Twilio Error: '' @ m)"
  using assms
  by (auto simp: send_twilio_message_def send_twilio_message_try_def Let_def
      split: option.splits sum.splits py_exception.splits)

theorem provider_message_prefixed_witness:
  "snd (send_twilio_message
          (provider_raises (TwilioRestException ''Invalid From Number'' ''HTTP 400 error''))
          ''AC1'' ''secret'' ''whatsapp:+14155238886'' ''+15551234567'' ''hello'')
     = Inr (False, ''Twilio Error: Invalid From Number'')"
  using provider_message_prefixed [of
      "provider_raises (TwilioRestException ''Invalid From Number'' ''HTTP 400 error'')"
      "''AC1''" "''secret''" "''Invalid From Number''" "''HTTP 400 error''" "''hello''"
      "''whatsapp:+14155238886''" "''+15551234567''"]
  by (simp add: provider_raises_def)

text \<open>
  C4, as stated, fails: for a provider rejecting with \<^verbatim>\<open>"Invalid From Number"\<close> the
  returned detail is not that text alone.
\<close>

theorem provider_message_verbatim_counterexample:
  "snd (send_twilio_message
          (provider_raises (TwilioRestException ''Invalid From Number'' ''HTTP 400 error''))
          ''AC1'' ''secret'' ''whatsapp:+14155238886'' ''+15551234567'' ''hello'')
     \<noteq> Inr (False, ''Invalid From Number'')"
  by (simp add: send_twilio_message_def send_twilio_message_try_def provider_raises_def)

text \<open>
  C5, as the code has it. When the provider accepts the message, the function returns the
  success flag and the text \<^verbatim>\<open>"Message sent successfully! SID: "\<close> followed by the
  provider's message identifier.
\<close>

theorem success_message_carries_sid:
  assumes "client_init env sid token = None"
    and "messages_create env sid token message from_num (''whatsapp:'' @ to_num) = Inr msg_sid"
  shows "snd (send_twilio_message env sid token from_num to_num message)
           = Inr (True, ''Message sent successfully! SID: '' @ msg_sid)"
  using assms
  by (simp add: send_twilio_message_def send_twilio_message_try_def Let_def)

theorem success_message_carries_sid_witness:
  "snd (send_twilio_message (provider_succeeds ''ABC123'')
          ''AC1'' ''secret'' ''whatsapp:+14155238886'' ''+15551234567'' ''hello'')
     = Inr (True, ''Message sent successfully! SID: ABC123'')"
  using success_message_carries_sid [of "provider_succeeds ''ABC123''" "''AC1''" "''secret''"
      "''hello''" "''whatsapp:+14155238886''" "''+15551234567''" "''ABC123''"]
  by (simp add: provider_succeeds_def)

text \<open>
  C5, as stated, fails: for a provider succeeding with identifier \<^verbatim>\<open>"ABC123"\<close> the
  text returned to the caller is not \<^verbatim>\<open>"ABC123"\<close>.
\<close>

theorem confirmation_token_counterexample:
  "snd (send_twilio_message (provider_succeeds ''ABC123'')
          ''AC1'' ''secret'' ''whatsapp:+14155238886'' ''+15551234567'' ''hello'')
     \<noteq> Inr (True, ''ABC123'')"
  by (simp add: send_twilio_message_def send_twilio_message_try_def provider_succeeds_def)

section \<open>Faults are reported, not raised\<close>








section \<open>The browser channel\<close>

text \<open>
  C8. The browser channel returns no value (Python's \<^verbatim>\<open>None\<close>, the unit value
  here), so a dispatch that completes without error has no confirmation token to pass on:
  the handler reports success with one fixed text, the same for every request, makes no
  error or warning call, and raises nothing.
\<close>

theorem browser_success_has_no_token:
  assumes "phone_number \<noteq> []" and "message \<noteq> []"
    and "snd (send_pywhatkit_message env phone_number message
             [''instant'' \<mapsto> PyBool (send_option = ''Send Instantly''),
              ''delay'' \<mapsto> PyInt (if send_option = ''Schedule for Later'' then number_input else 0)])
           = Inr ()"
  shows "snd (whatsapp_web_form env True phone_number message send_option number_input)
     = ([St_spinner ''Preparing to send message...'',
         St_success (check_mark @ '' WhatsApp Web has been opened to send your message!''),
         St_balloons], None)"
  using assms
  by (cases "send_option = ''Schedule for Later''")
    (auto simp: whatsapp_web_form_def Let_def split: prod.splits sum.splits)

theorem browser_success_has_no_token_witness:
  "whatsapp_web_form \<lparr>clock = late_evening, kit = kit_completes\<rparr>
        True ''+15551234567'' ''hello'' ''Schedule for Later'' 5
     = ([Sendwhatmsg ''+15551234567'' ''hello'' 0 3],
        [St_spinner ''Preparing to send message...'',
         St_success (check_mark @ '' WhatsApp Web has been opened to send your message!''),
         St_balloons], None)"
  using browser_success_has_no_token [of "''+15551234567''" "''hello''"
      "\<lparr>clock = late_evening, kit = kit_completes\<rparr>" "''Schedule for Later''" 5]
  by (simp add: whatsapp_web_form_def send_pywhatkit_message_def call_kit_def kit_completes_def
      late_evening_def timedelta_minutes_def datetime_add_def MAXORDINAL_def Let_def)

text \<open>
  C10. In instant mode the delay is never read: two schedules that agree on a truthy
  \<^verbatim>\<open>'instant'\<close> entry, whatever their \<^verbatim>\<open>'delay'\<close> entries are (or if one is missing),
  give the same calls and the same result, the one call being
  \<^verbatim>\<open>sendwhatmsg_instantly\<close> with the phone number, the message, wait time 15 and the
  tab-close flag set. The form handler, with the option \<^verbatim>\<open>"Send Instantly"\<close>, does not
  depend on the value of the delay widget either.
\<close>

theorem instant_send_ignores_delay:
  assumes "schedule_a ''instant'' = Some i" and "schedule_b ''instant'' = Some i" and "truthy i"
  shows "send_pywhatkit_message env phone_no message schedule_a
           = send_pywhatkit_message env phone_no message schedule_b
         \<and> fst (send_pywhatkit_message env phone_no message schedule_a)
           = [Sendwhatmsg_instantly phone_no message 15 True]
         \<and> whatsapp_web_form env submit_button phone_no message ''Send Instantly'' delay_a
           = whatsapp_web_form env submit_button phone_no message ''Send Instantly'' delay_b"
  using assms by (simp add: send_pywhatkit_message_def call_kit_def whatsapp_web_form_def)

theorem instant_send_ignores_delay_witness:
  "send_pywhatkit_message \<lparr>clock = noon, kit = kit_completes\<rparr> ''+15551234567'' ''hello''
       [''instant'' \<mapsto> PyBool True, ''delay'' \<mapsto> PyInt 0]
     = send_pywhatkit_message \<lparr>clock = noon, kit = kit_completes\<rparr> ''+15551234567'' ''hello''
       [''instant'' \<mapsto> PyBool True, ''delay'' \<mapsto> PyInt 45]
   \<and> fst (send_pywhatkit_message \<lparr>clock = noon, kit = kit_completes\<rparr> ''+15551234567'' ''hello''
       [''instant'' \<mapsto> PyBool True, ''delay'' \<mapsto> PyInt 0])
     = [Sendwhatmsg_instantly ''+15551234567'' ''hello'' 15 True]"
  using instant_send_ignores_delay [of "[''instant'' \<mapsto> PyBool True, ''delay'' \<mapsto> PyInt 0]"
      "PyBool True" "[''instant'' \<mapsto> PyBool True, ''delay'' \<mapsto> PyInt 45]"
      "\<lparr>clock = noon, kit = kit_completes\<rparr>" "''+15551234567''" "''hello''" True 0 45]
  by (simp add: send_pywhatkit_message_def call_kit_def)

subsection \<open>Minutes, hours and days\<close>

text \<open>Division and remainder by 60, 1440, 3600 and 86400, as the carries of the addition use them.\<close>

lemma div60: "0 \<le> s \<Longrightarrow> s < 60 \<Longrightarrow> (m * 60 + s) div 60 = (m::int)"
  by simp

lemma mod60: "0 \<le> s \<Longrightarrow> s < 60 \<Longrightarrow> (m * 60 + s) mod 60 = (s::int)"
  by simp

lemma minutes_div_day: "((n::int) * 60) div 86400 = n div 1440"
proof -
  have "(n * 60) div (60 * 1440) = ((n * 60) div 60) div 1440"
    by (rule zdiv_zmult2_eq) simp
  then show ?thesis by simp
qed

lemma minutes_mod_day: "((n::int) * 60) mod 86400 = (n mod 1440) * 60"
proof -
  have "(60 * n) mod (60 * 1440) = 60 * (n mod 1440)"
    by (rule mult_mod_right [symmetric])
  then show ?thesis by (simp add: mult.commute)
qed

lemma seconds_div_day:
  assumes "0 \<le> (s::int)" "s < 60"
  shows "(m * 60 + s) div 86400 = m div 1440"
proof -
  have "(m * 60 + s) div (60 * 1440) = ((m * 60 + s) div 60) div 1440"
    by (rule zdiv_zmult2_eq) simp
  with assms show ?thesis by (simp add: div60)
qed

lemma seconds_mod_day:
  assumes "0 \<le> (s::int)" "s < 60"
  shows "(m * 60 + s) mod 86400 = (m mod 1440) * 60 + s"
proof -
  have "(m * 60 + s) mod (60 * 1440) = 60 * ((m * 60 + s) div 60 mod 1440) + (m * 60 + s) mod 60"
    by (rule zmod_zmult2_eq) simp
  with assms show ?thesis by (simp add: div60 mod60)
qed

lemma seconds_div_hour:
  assumes "0 \<le> (s::int)" "s < 60"
  shows "(q * 60 + s) div 3600 = q div 60"
proof -
  have "(q * 60 + s) div (60 * 60) = ((q * 60 + s) div 60) div 60"
    by (rule zdiv_zmult2_eq) simp
  with assms show ?thesis by (simp add: div60)
qed

lemma seconds_mod_hour:
  assumes "0 \<le> (s::int)" "s < 60"
  shows "(q * 60 + s) mod 3600 = (q mod 60) * 60 + s"
proof -
  have "(q * 60 + s) mod (60 * 60) = 60 * ((q * 60 + s) div 60 mod 60) + (q * 60 + s) mod 60"
    by (rule zmod_zmult2_eq) simp
  with assms show ?thesis by (simp add: div60 mod60)
qed

lemma mod_day_mod_hour: "((m::int) mod 1440) mod 60 = m mod 60"
  by (rule mod_mod_cancel) simp

lemma minutes_split: "((m::int) div 1440) * 1440 + ((m mod 1440) div 60) * 60 + m mod 60 = m"
proof -
  have hours: "((m mod 1440) div 60) * 60 + m mod 60 = m mod 1440"
    using div_mult_mod_eq [of "m mod 1440" 60] by (simp add: mod_day_mod_hour)
  have days: "(m div 1440) * 1440 + m mod 1440 = m"
    by (rule div_mult_mod_eq)
  show ?thesis
    unfolding add.assoc hours by (rule days)
qed

lemma timedelta_minutes_in_range:
  assumes "- 999999999 \<le> n div 1440" and "n div 1440 \<le> 999999999"
  shows "timedelta_minutes n
           = Inr \<lparr>days = n div 1440, seconds = (n mod 1440) * 60, microseconds = 0\<rparr>"
  using assms by (simp add: timedelta_minutes_def Let_def minutes_div_day minutes_mod_day)

lemma datetime_add_minutes:
  assumes v: "valid_datetime now"
    and lo: "1 \<le> toordinal now + (hour now * 60 + minute now + n) div 1440"
    and hi: "toordinal now + (hour now * 60 + minute now + n) div 1440 \<le> MAXORDINAL"
  shows "datetime_add now \<lparr>days = n div 1440, seconds = (n mod 1440) * 60, microseconds = 0\<rparr>
     = Inr \<lparr>toordinal = toordinal now + (hour now * 60 + minute now + n) div 1440,
            hour = ((hour now * 60 + minute now + n) mod 1440) div 60,
            minute = (minute now + n) mod 60,
            second = second now,
            microsecond = microsecond now\<rparr>"
proof -
  define a where "a = hour now * 60 + minute now + n mod 1440"
  define b where "b = hour now * 60 + minute now + n"
  from v have sec: "0 \<le> second now" "second now < 60"
    and us: "0 \<le> microsecond now" "microsecond now < 1000000"
    by (simp_all add: valid_datetime_def)
  have us0: "microsecond now div 1000000 = 0" "microsecond now mod 1000000 = microsecond now"
    using us by simp_all
  have s: "hour now * 3600 + minute now * 60 + second now + n mod 1440 * 60 = a * 60 + second now"
    by (simp add: a_def algebra_simps)
  have ab: "b = a + (n div 1440) * 1440"
    by (simp add: a_def b_def)
  have abm: "a mod 1440 = b mod 1440"
    by (simp add: ab)
  have abd: "n div 1440 + a div 1440 = b div 1440"
    by (simp add: ab)
  have day: "(a * 60 + second now) div 86400 = a div 1440"
    using sec by (rule seconds_div_day)
  have rest: "(a * 60 + second now) mod 86400 = (b mod 1440) * 60 + second now"
    using sec by (simp add: seconds_mod_day abm)
  have h: "((b mod 1440) * 60 + second now) div 3600 = (b mod 1440) div 60"
    using sec by (rule seconds_div_hour)
  have bm: "b mod 60 = (minute now + n) mod 60"
    by (simp add: b_def add.assoc)
  have m: "(((b mod 1440) * 60 + second now) mod 3600) div 60 = (minute now + n) mod 60"
    using sec by (simp add: seconds_mod_hour div60 mod_day_mod_hour bm)
  have s': "((b mod 1440) * 60 + second now) mod 60 = second now"
    using sec by (rule mod60)
  have sm: "second now mod 60 = second now"
    using sec by simp
  have d: "toordinal now + n div 1440 + a div 1440 = toordinal now + b div 1440"
    using abd by simp
  from lo hi have range: "0 < toordinal now + b div 1440" "toordinal now + b div 1440 \<le> MAXORDINAL"
    by (simp_all add: b_def)
  show ?thesis
    unfolding datetime_add_def Let_def
    using range
    by (simp add: us0 s day rest h m s' sm d) (simp add: b_def)
qed

lemma target_valid:
  assumes v: "valid_datetime now"
    and lo: "1 \<le> toordinal now + (hour now * 60 + minute now + n) div 1440"
    and hi: "toordinal now + (hour now * 60 + minute now + n) div 1440 \<le> MAXORDINAL"
  shows "valid_datetime
     \<lparr>toordinal = toordinal now + (hour now * 60 + minute now + n) div 1440,
      hour = ((hour now * 60 + minute now + n) mod 1440) div 60,
      minute = (minute now + n) mod 60,
      second = second now,
      microsecond = microsecond now\<rparr>"
proof -
  define b where "b = hour now * 60 + minute now + n"
  have "0 \<le> b mod 1440" "b mod 1440 < 1440" by simp_all
  then have "0 \<le> (b mod 1440) div 60" "(b mod 1440) div 60 < 24"
    by (simp_all add: div_less_iff_less_mult pos_imp_zdiv_nonneg_iff)
  with v lo hi show ?thesis
    by (simp add: valid_datetime_def b_def)
qed

lemma target_total_microseconds:
  "total_microseconds
     \<lparr>toordinal = toordinal now + (hour now * 60 + minute now + n) div 1440,
      hour = ((hour now * 60 + minute now + n) mod 1440) div 60,
      minute = (minute now + n) mod 60,
      second = second now,
      microsecond = microsecond now\<rparr>
   = total_microseconds now + n * 60000000"
proof -
  define b where "b = hour now * 60 + minute now + n"
  have bm: "(minute now + n) mod 60 = b mod 60"
    by (simp add: b_def add.assoc)
  have "(b div 1440) * 1440 + ((b mod 1440) div 60) * 60 + b mod 60 = b"
    by (rule minutes_split)
  then have "((toordinal now + b div 1440) * 24 + (b mod 1440) div 60) * 60 + b mod 60
      = toordinal now * 1440 + b"
    by (simp add: algebra_simps)
  then have "((toordinal now + (hour now * 60 + minute now + n) div 1440) * 24
       + ((hour now * 60 + minute now + n) mod 1440) div 60) * 60 + (minute now + n) mod 60
      = (toordinal now * 24 + hour now) * 60 + minute now + n"
    by (simp add: bm) (simp add: b_def algebra_simps)
  then show ?thesis
    by (simp add: total_microseconds_def algebra_simps)
qed

subsection \<open>The scheduled send\<close>

text \<open>
  The scheduled branch, for any integer delay whose target day exists: the driver is
  asked to send at the hour and minute of the clock reading plus the delay.
\<close>

lemma delayed_send:
  assumes i: "schedule_time ''instant'' = Some i" "\<not> truthy i"
    and d: "schedule_time ''delay'' = Some d"
    and v: "valid_datetime (clock env)"
    and lo: "1 \<le> toordinal (clock env)
                 + (hour (clock env) * 60 + minute (clock env) + as_int d) div 1440"
    and hi: "toordinal (clock env)
               + (hour (clock env) * 60 + minute (clock env) + as_int d) div 1440 \<le> MAXORDINAL"
  shows "send_pywhatkit_message env phone_no message schedule_time
     = call_kit env
         (Sendwhatmsg phone_no message
            (((hour (clock env) * 60 + minute (clock env) + as_int d) mod 1440) div 60)
            ((minute (clock env) + as_int d) mod 60))"
proof -
  define n where "n = as_int d"
  define a where "a = hour (clock env) * 60 + minute (clock env)"
  from v have a: "0 \<le> a" "a < 1440" and ord: "1 \<le> toordinal (clock env)"
      "toordinal (clock env) \<le> 3652059"
    by (simp_all add: valid_datetime_def a_def MAXORDINAL_def)
  have "n div 1440 \<le> (a + n) div 1440"
    using a by (intro zdiv_mono1) simp_all
  moreover have "(a + n) div 1440 \<le> (n + 1440) div 1440"
    using a by (intro zdiv_mono1) simp_all
  then have "(a + n) div 1440 \<le> n div 1440 + 1"
    by simp
  moreover from lo hi have "1 \<le> toordinal (clock env) + (a + n) div 1440"
      "toordinal (clock env) + (a + n) div 1440 \<le> 3652059"
    by (simp_all add: a_def n_def MAXORDINAL_def)
  ultimately have "- 999999999 \<le> n div 1440" "n div 1440 \<le> 999999999"
    using ord by linarith+
  then have td: "timedelta_minutes (as_int d)
      = Inr \<lparr>days = n div 1440, seconds = (n mod 1440) * 60, microseconds = 0\<rparr>"
    unfolding n_def by (rule timedelta_minutes_in_range)
  have add: "datetime_add (clock env)
       \<lparr>days = n div 1440, seconds = (n mod 1440) * 60, microseconds = 0\<rparr>
     = Inr \<lparr>toordinal = toordinal (clock env)
                + (hour (clock env) * 60 + minute (clock env) + n) div 1440,
            hour = ((hour (clock env) * 60 + minute (clock env) + n) mod 1440) div 60,
            minute = (minute (clock env) + n) mod 60,
            second = second (clock env),
            microsecond = microsecond (clock env)\<rparr>"
    using v lo hi unfolding n_def by (rule datetime_add_minutes)
  show ?thesis
    using i d by (simp add: send_pywhatkit_message_def Let_def td add) (simp add: n_def)
qed

text \<open>
  C2, as the code has it. For a delay \<open>d\<close> in \<open>[1, 60]\<close> and a clock reading \<open>now\<close>
  such that the day of \<open>now + d\<close> minutes is at most 9999-12-31, there is a valid datetime
  \<open>target\<close>, exactly \<open>d\<close> minutes after \<open>now\<close> on the time line, whose hour and minute
  roll over into the next hour and the next day as the calendar does, and the driver is
  called once, with \<open>target\<close>'s hour and minute. The clock is read when the function
  runs. The form handler, with the option \<^verbatim>\<open>"Schedule for Later"\<close>, makes this same call.
\<close>

theorem delayed_schedule_target:
  assumes "1 \<le> d" and "d \<le> 60" and "valid_datetime (clock env)"
    and "toordinal (clock env)
           + (hour (clock env) * 60 + minute (clock env) + d) div 1440 \<le> MAXORDINAL"
  shows "\<exists>target.
      valid_datetime target
      \<and> total_microseconds target = total_microseconds (clock env) + d * 60000000
      \<and> toordinal target
          = toordinal (clock env) + (hour (clock env) * 60 + minute (clock env) + d) div 1440
      \<and> hour target = ((hour (clock env) * 60 + minute (clock env) + d) mod 1440) div 60
      \<and> minute target = (minute (clock env) + d) mod 60
      \<and> send_pywhatkit_message env phone_no message
            [''instant'' \<mapsto> PyBool False, ''delay'' \<mapsto> PyInt d]
          = call_kit env (Sendwhatmsg phone_no message (hour target) (minute target))
      \<and> (phone_no \<noteq> [] \<and> message \<noteq> [] \<longrightarrow>
          fst (whatsapp_web_form env True phone_no message ''Schedule for Later'' d)
            = [Sendwhatmsg phone_no message (hour target) (minute target)])"
proof -
  let ?now = "clock env"
  let ?b = "hour ?now * 60 + minute ?now + d"
  let ?target = "\<lparr>toordinal = toordinal ?now + ?b div 1440,
      hour = (?b mod 1440) div 60, minute = (minute ?now + d) mod 60,
      second = second ?now, microsecond = microsecond ?now\<rparr>"
  from assms have "0 \<le> ?b"
    by (simp add: valid_datetime_def)
  then have "0 \<le> ?b div 1440"
    by (simp add: pos_imp_zdiv_nonneg_iff)
  with assms have lo: "1 \<le> toordinal ?now + ?b div 1440"
    by (simp add: valid_datetime_def)
  have hi: "toordinal ?now + ?b div 1440 \<le> MAXORDINAL"
    using assms by simp
  have send: "send_pywhatkit_message env phone_no message
        [''instant'' \<mapsto> PyBool False, ''delay'' \<mapsto> PyInt d]
      = call_kit env (Sendwhatmsg phone_no message ((?b mod 1440) div 60) ((minute ?now + d) mod 60))"
    using delayed_send [of "[''instant'' \<mapsto> PyBool False, ''delay'' \<mapsto> PyInt d]"
        "PyBool False" "PyInt d" env phone_no message] assms(3) lo hi
    by simp
  have form: "phone_no \<noteq> [] \<and> message \<noteq> [] \<longrightarrow>
      fst (whatsapp_web_form env True phone_no message ''Schedule for Later'' d)
        = [Sendwhatmsg phone_no message ((?b mod 1440) div 60) ((minute ?now + d) mod 60)]"
    by (simp add: whatsapp_web_form_def Let_def send call_kit_def split: option.splits)
  have "valid_datetime ?target"
    using assms(3) lo hi by (rule target_valid)
  moreover have "total_microseconds ?target = total_microseconds ?now + d * 60000000"
    by (rule target_total_microseconds)
  ultimately show ?thesis
    using send form by (intro exI [of _ ?target]) simp
qed

theorem delayed_schedule_target_witness:
  "send_pywhatkit_message \<lparr>clock = late_evening, kit = kit_completes\<rparr> ''+15551234567'' ''hello''
       [''instant'' \<mapsto> PyBool False, ''delay'' \<mapsto> PyInt 5]
     = ([Sendwhatmsg ''+15551234567'' ''hello'' 0 3], Inr ())
   \<and> total_microseconds \<lparr>toordinal = 738887, hour = 0, minute = 3, second = 0, microsecond = 0\<rparr>
     = total_microseconds late_evening + 5 * 60000000"
  using delayed_schedule_target [of 5 "\<lparr>clock = late_evening, kit = kit_completes\<rparr>"
      "''+15551234567''" "''hello''"]
  by (simp add: send_pywhatkit_message_def call_kit_def kit_completes_def late_evening_def
      timedelta_minutes_def datetime_add_def MAXORDINAL_def total_microseconds_def
      valid_datetime_def Let_def)

text \<open>
  C2, as stated for every clock reading, fails: at 23:58 on 9999-12-31 a delay of five
  minutes has no representable target; the addition raises \<^verbatim>\<open>OverflowError\<close> and the
  driver is not called.
\<close>

theorem delayed_schedule_overflow_counterexample:
  "valid_datetime last_evening
   \<and> send_pywhatkit_message \<lparr>clock = last_evening, kit = kit_completes\<rparr> ''+15551234567'' ''hello''
       [''instant'' \<mapsto> PyBool False, ''delay'' \<mapsto> PyInt 5]
     = ([], Inl (OverflowError ''date value out of range''))"
  by (simp add: send_pywhatkit_message_def last_evening_def valid_datetime_def
      timedelta_minutes_def datetime_add_def MAXORDINAL_def Let_def)

text \<open>
  C7, as the code has it. The function has no check of the delay's range: called with a
  delay \<open>d \<le> 0\<close> in scheduled mode, it computes the target \<open>now + d\<close> minutes, which is
  not after \<open>now\<close>, and calls the driver with the target's hour and minute, as long as
  the target's day is not before 0001-01-01. What it returns is what the driver does.
\<close>

theorem nonpositive_delay_is_scheduled:
  assumes "d \<le> 0" and "valid_datetime (clock env)"
    and "1 \<le> toordinal (clock env)
               + (hour (clock env) * 60 + minute (clock env) + d) div 1440"
  shows "\<exists>target.
      valid_datetime target
      \<and> total_microseconds target = total_microseconds (clock env) + d * 60000000
      \<and> send_pywhatkit_message env phone_no message
            [''instant'' \<mapsto> PyBool False, ''delay'' \<mapsto> PyInt d]
          = call_kit env (Sendwhatmsg phone_no message (hour target) (minute target))"
proof -
  let ?now = "clock env"
  let ?b = "hour ?now * 60 + minute ?now + d"
  let ?target = "\<lparr>toordinal = toordinal ?now + ?b div 1440,
      hour = (?b mod 1440) div 60, minute = (minute ?now + d) mod 60,
      second = second ?now, microsecond = microsecond ?now\<rparr>"
  from assms have "?b < 1440"
    by (simp add: valid_datetime_def)
  then have "?b div 1440 \<le> 1439 div 1440"
    by (intro zdiv_mono1) simp_all
  then have "?b div 1440 \<le> 0"
    by simp
  with assms have hi: "toordinal ?now + ?b div 1440 \<le> MAXORDINAL"
    by (simp add: valid_datetime_def)
  have lo: "1 \<le> toordinal ?now + ?b div 1440"
    using assms by simp
  have send: "send_pywhatkit_message env phone_no message
        [''instant'' \<mapsto> PyBool False, ''delay'' \<mapsto> PyInt d]
      = call_kit env (Sendwhatmsg phone_no message ((?b mod 1440) div 60) ((minute ?now + d) mod 60))"
    using delayed_send [of "[''instant'' \<mapsto> PyBool False, ''delay'' \<mapsto> PyInt d]"
        "PyBool False" "PyInt d" env phone_no message] assms(2) lo hi
    by simp
  have "valid_datetime ?target"
    using assms(2) lo hi by (rule target_valid)
  moreover have "total_microseconds ?target = total_microseconds ?now + d * 60000000"
    by (rule target_total_microseconds)
  ultimately show ?thesis
    using send by (intro exI [of _ ?target]) simp
qed

theorem nonpositive_delay_is_scheduled_witness:
  "send_pywhatkit_message \<lparr>clock = noon, kit = kit_completes\<rparr> ''+15551234567'' ''hello''
       [''instant'' \<mapsto> PyBool False, ''delay'' \<mapsto> PyInt 0]
     = ([Sendwhatmsg ''+15551234567'' ''hello'' 12 0], Inr ())"
  using nonpositive_delay_is_scheduled [of 0 "\<lparr>clock = noon, kit = kit_completes\<rparr>"
      "''+15551234567''" "''hello''"]
  by (simp add: send_pywhatkit_message_def call_kit_def kit_completes_def noon_def
      timedelta_minutes_def datetime_add_def MAXORDINAL_def valid_datetime_def Let_def)

text \<open>
  C7, as stated, fails: with a delay of minus five minutes at noon the driver is asked
  to send at 11:55 and the function returns normally; nothing is rejected.
\<close>

theorem nonpositive_delay_not_rejected_counterexample:
  "send_pywhatkit_message \<lparr>clock = noon, kit = kit_completes\<rparr> ''+15551234567'' ''hello''
       [''instant'' \<mapsto> PyBool False, ''delay'' \<mapsto> PyInt (- 5)]
     = ([Sendwhatmsg ''+15551234567'' ''hello'' 11 55], Inr ())"
  by (simp add: send_pywhatkit_message_def call_kit_def kit_completes_def noon_def
      timedelta_minutes_def datetime_add_def MAXORDINAL_def Let_def)

section \<open>The default credentials\<close>

text \<open>
  C9. A secrets store that is absent, which raises \<^verbatim>\<open>FileNotFoundError\<close> on access
  whatever its text, does not make the loading fail: the three defaults are the empty
  string and a hint is shown. When the store exists, each name it lacks gives the empty
  string as its default.
\<close>

theorem absent_secrets_fall_back:
  "load_default_credentials (Inl (FileNotFoundError s))
     = (Inr ('''', '''', ''''),
        [St_info ''Create a `.streamlit/secrets.toml` file to pre-fill your credentials.''])
   \<and> (\<exists>default_sid default_token default_from_num.
        load_default_credentials (Inr m) = (Inr (default_sid, default_token, default_from_num), [])
        \<and> (m ''TWILIO_ACCOUNT_SID'' = None \<longrightarrow> default_sid = '''')
        \<and> (m ''TWILIO_AUTH_TOKEN'' = None \<longrightarrow> default_token = '''')
        \<and> (m ''TWILIO_WHATSAPP_NUMBER'' = None \<longrightarrow> default_from_num = ''''))"
  by (auto simp: load_default_credentials_def secrets_get_def secrets_except_def
      split: option.splits)

theorem absent_secrets_fall_back_witness:
  "load_default_credentials (Inl (FileNotFoundError ''No secrets files found.''))
     = (Inr ('''', '''', ''''),
        [St_info ''Create a `.streamlit/secrets.toml` file to pre-fill your credentials.''])
   \<and> load_default_credentials (Inr [''TWILIO_ACCOUNT_SID'' \<mapsto> ''AC1''])
     = (Inr (''AC1'', '''', ''''), [])"
  using absent_secrets_fall_back [of "''No secrets files found.''" "[''TWILIO_ACCOUNT_SID'' \<mapsto> ''AC1'']"]
  by (simp add: load_default_credentials_def secrets_get_def secrets_except_def)

end
